theory Spec2Isabelle
  imports Main "HOL-Library.Log_Nat"
begin

section \<open>Python floats\<close>

text \<open>
  The fields \<open>speed\<close>, \<open>x\<close>, \<open>th\<close> and \<open>last_keypress_time\<close> of the node are Python
  floats, that is IEEE 754 binary64 numbers. \<open>Finite sg m e\<close> is the number
  \<open>(-1)^sg * m * 2^e\<close>; the canonical form of a double has \<open>0 \<le> m < 2^53\<close>,
  \<open>-1074 \<le> e \<le> 971\<close>, and \<open>2^52 \<le> m\<close> unless \<open>e = -1074\<close> (zero and the subnormal numbers).
  Both zeros exist (\<open>Finite False 0 (-1074)\<close> and \<open>Finite True 0 (-1074)\<close>).
\<close>

datatype pyfloat = Finite bool int int | Infinity bool | NaN

text \<open>
  Rounding of the exact value \<open>M * 2^E\<close> (\<open>M \<ge> 0\<close>) to the nearest double, ties to the even
  significand, overflowing to infinity: the rounding every binary64 operation applies to
  its exact result.
\<close>

definition round_binary64 :: "bool \<Rightarrow> int \<Rightarrow> int \<Rightarrow> pyfloat" where
  "round_binary64 sg M E =
     (if M = 0 then Finite sg 0 (- 1074)
      else let e' = max (E + bitlen M - 53) (- 1074) in
        if e' \<le> E then
          (if 971 < e' then Infinity sg else Finite sg (M * 2 ^ nat (E - e')) e')
        else
          let k = nat (e' - E); q = M div 2 ^ k; r = M mod 2 ^ k; h = 2 ^ (k - 1);
              m = (if r < h then q else if h < r then q + 1 else if even q then q else q + 1);
              e'' = (if m = 2 ^ 53 then e' + 1 else e');
              m' = (if m = 2 ^ 53 then 2 ^ 52 else m)
          in if 971 < e'' then Infinity sg else Finite sg m' e'')"

text \<open>The double that a decimal literal \<open>a / b\<close> (\<open>b > 0\<close>) denotes: the quotient is
  computed with at least 55 significant bits and a sticky bit, then rounded.\<close>

definition float_of_ratio :: "int \<Rightarrow> int \<Rightarrow> pyfloat" where
  "float_of_ratio a b =
     (let K = nat (max 0 (55 + bitlen b - bitlen \<bar>a\<bar>));
          Q = (\<bar>a\<bar> * 2 ^ K) div b;
          sticky = (if (\<bar>a\<bar> * 2 ^ K) mod b = 0 then 0 else 1)
      in round_binary64 (a < 0) (2 * Q + sticky) (- int K - 1))"

fun fneg :: "pyfloat \<Rightarrow> pyfloat" where
  "fneg (Finite s m e) = Finite (\<not> s) m e"
| "fneg (Infinity s) = Infinity (\<not> s)"
| "fneg NaN = NaN"

text \<open>Python's \<open>a * b\<close> on floats.\<close>

fun fmul :: "pyfloat \<Rightarrow> pyfloat \<Rightarrow> pyfloat" where
  "fmul (Finite s m e) (Finite t n f) = round_binary64 (s \<noteq> t) (m * n) (e + f)"
| "fmul (Finite s m e) (Infinity t) = (if m = 0 then NaN else Infinity (s \<noteq> t))"
| "fmul (Infinity s) (Finite t n f) = (if n = 0 then NaN else Infinity (s \<noteq> t))"
| "fmul (Infinity s) (Infinity t) = Infinity (s \<noteq> t)"
| "fmul NaN b = NaN"
| "fmul a NaN = NaN"

text \<open>The signed significands of two finite numbers brought to their common (smaller)
  exponent, where they can be compared and subtracted exactly.\<close>

definition signed :: "bool \<Rightarrow> int \<Rightarrow> int" where
  "signed s m = (if s then - m else m)"

definition aligned :: "bool \<Rightarrow> int \<Rightarrow> int \<Rightarrow> int \<Rightarrow> int" where
  "aligned s m e g = signed s m * 2 ^ nat (e - g)"

text \<open>Python's \<open>a - b\<close> on floats.\<close>

fun fsub :: "pyfloat \<Rightarrow> pyfloat \<Rightarrow> pyfloat" where
  "fsub (Finite s m e) (Finite t n f) =
     (let g = min e f; d = aligned s m e g - aligned t n f g
      in if d = 0 then Finite (s \<and> \<not> t \<and> m = 0) 0 (- 1074)
         else round_binary64 (d < 0) \<bar>d\<bar> g)"
| "fsub (Finite s m e) (Infinity t) = Infinity (\<not> t)"
| "fsub (Infinity s) (Finite t n f) = Infinity s"
| "fsub (Infinity s) (Infinity t) = (if s = t then NaN else Infinity s)"
| "fsub NaN b = NaN"
| "fsub a NaN = NaN"

text \<open>Python's \<open>a < b\<close>, \<open>a > b\<close> and \<open>a == b\<close> on floats: false whenever one side is NaN,
  and the two zeros are equal.\<close>

fun flt :: "pyfloat \<Rightarrow> pyfloat \<Rightarrow> bool" where
  "flt (Finite s m e) (Finite t n f) = (aligned s m e (min e f) < aligned t n f (min e f))"
| "flt (Finite s m e) (Infinity t) = (\<not> t)"
| "flt (Infinity s) (Finite t n f) = s"
| "flt (Infinity s) (Infinity t) = (s \<and> \<not> t)"
| "flt NaN b = False"
| "flt a NaN = False"

definition fgt :: "pyfloat \<Rightarrow> pyfloat \<Rightarrow> bool" where
  "fgt a b = flt b a"

fun feq :: "pyfloat \<Rightarrow> pyfloat \<Rightarrow> bool" where
  "feq (Finite s m e) (Finite t n f) = (aligned s m e (min e f) = aligned t n f (min e f))"
| "feq (Infinity s) (Infinity t) = (s = t)"
| "feq a b = False"

text \<open>Python's \<open>a <= b\<close> and \<open>math.isfinite\<close>.\<close>

definition fle :: "pyfloat \<Rightarrow> pyfloat \<Rightarrow> bool" where
  "fle a b = (flt a b \<or> feq a b)"

fun is_finite :: "pyfloat \<Rightarrow> bool" where
  "is_finite (Finite s m e) = True"
| "is_finite (Infinity s) = False"
| "is_finite NaN = False"

text \<open>The exact value of a finite float, as a rational number.\<close>

fun valof :: "pyfloat \<Rightarrow> rat option" where
  "valof (Finite s m e) = Some (of_int (signed s m) * 2 powi e)"
| "valof (Infinity s) = None"
| "valof NaN = None"

text \<open>The float literals of the source.\<close>

definition lit_0_0 :: pyfloat where "lit_0_0 = float_of_ratio 0 1"
definition lit_1_0 :: pyfloat where "lit_1_0 = float_of_ratio 1 1"
definition lit_0_35 :: pyfloat where "lit_0_35 = float_of_ratio 35 100"
definition lit_1_1 :: pyfloat where "lit_1_1 = float_of_ratio 11 10"
definition lit_0_9 :: pyfloat where "lit_0_9 = float_of_ratio 9 10"

definition GRANULARITY :: int where "GRANULARITY = 10"
definition TIMEOUT :: pyfloat where "TIMEOUT = float_of_ratio 5 1"

section \<open>Python strings\<close>

text \<open>
  A key token is a Python \<open>str\<close>, modelled as a list of characters. \<open>str.lower\<close> and
  \<open>str.upper\<close> are modelled on the ASCII letters; every other character is left as it
  is. (Python maps some non-ASCII characters to other non-ASCII characters or, for
  \<open>upper\<close> of the sharp s, to ``SS''; no character other than an ASCII letter is mapped
  to one of the letters the key table compares with.)
\<close>

definition ascii_uppercase :: string where
  "ascii_uppercase = ''ABCDEFGHIJKLMNOPQRSTUVWXYZ''"

definition ascii_lowercase :: string where
  "ascii_lowercase = ''abcdefghijklmnopqrstuvwxyz''"

definition lower_char :: "char \<Rightarrow> char" where
  "lower_char c = (case map_of (zip ascii_uppercase ascii_lowercase) c of
                     Some d \<Rightarrow> d | None \<Rightarrow> c)"

definition upper_char :: "char \<Rightarrow> char" where
  "upper_char c = (case map_of (zip ascii_lowercase ascii_uppercase) c of
                     Some d \<Rightarrow> d | None \<Rightarrow> c)"

definition lower :: "string \<Rightarrow> string" where
  "lower s = map lower_char s"

definition upper :: "string \<Rightarrow> string" where
  "upper s = map upper_char s"

fun startswith :: "string \<Rightarrow> string \<Rightarrow> bool" where
  "startswith s [] = True"
| "startswith [] (p # ps) = False"
| "startswith (c # cs) (p # ps) = (c = p \<and> startswith cs ps)"

text \<open>\<open>str_find s sub\<close> is the lowest index at which \<open>sub\<close> occurs in \<open>s\<close>.\<close>

fun str_find :: "string \<Rightarrow> string \<Rightarrow> nat option" where
  "str_find [] sub = (if sub = [] then Some 0 else None)"
| "str_find (c # cs) sub =
     (if startswith (c # cs) sub then Some 0 else map_option Suc (str_find cs sub))"

text \<open>Python's \<open>sub in s\<close> on strings is the substring test: the empty string is in
  every string.\<close>

definition str_in :: "string \<Rightarrow> string \<Rightarrow> bool" where
  "str_in sub s = (str_find s sub \<noteq> None)"

datatype py_error = ValueError | IndexError | OSError | TermiosError

text \<open>\<open>s.index(sub)\<close>.\<close>

definition str_index :: "string \<Rightarrow> string \<Rightarrow> py_error + int" where
  "str_index s sub = (case str_find s sub of None \<Rightarrow> Inl ValueError | Some i \<Rightarrow> Inr (int i))"

definition digit_of :: "char \<Rightarrow> int option" where
  "digit_of c = map_of (zip ''0123456789'' [0, 1, 2, 3, 4, 5, 6, 7, 8, 9]) c"

fun parse_digits :: "string \<Rightarrow> int \<Rightarrow> int option" where
  "parse_digits [] acc = Some acc"
| "parse_digits (c # cs) acc =
     (case digit_of c of None \<Rightarrow> None | Some d \<Rightarrow> parse_digits cs (10 * acc + d))"

text \<open>\<open>int(s)\<close> on a string of decimal digits; the empty string is a ValueError. (Signs,
  blanks and underscores, which \<open>int\<close> also accepts, do not occur in a substring of
  ``12345'', the only strings the source passes to it.)\<close>

definition py_int :: "string \<Rightarrow> py_error + int" where
  "py_int s = (if s = [] then Inl ValueError
               else case parse_digits s 0 of None \<Rightarrow> Inl ValueError | Some n \<Rightarrow> Inr n)"

section \<open>The node: state, timer callback\<close>

record Teleop =
  speed :: pyfloat
  motors :: "int list"
  x :: pyfloat
  th :: pyfloat
  last_keypress_time :: pyfloat

text \<open>\<open>Teleop.__init__\<close>; \<open>now\<close> is what \<open>time.time()\<close> returns there.\<close>

definition Teleop_init :: "pyfloat \<Rightarrow> Teleop" where
  "Teleop_init now =
     \<lparr>speed = lit_0_35, motors = replicate 7 0, x = lit_0_0, th = lit_0_0,
      last_keypress_time = now\<rparr>"

text \<open>The Twist message: the four components the callback does not assign keep the
  default 0.0 of \<open>Twist()\<close> and are left out.\<close>

record twist =
  linear_x :: pyfloat
  angular_z :: pyfloat

text \<open>\<open>Teleop.timer_callback\<close>: the state after the tick, the Twist published on
  \<open>cmd_vel\<close> and the data of the Int32MultiArray published on \<open>/joint_states\<close>.
  \<open>current_time\<close> is what \<open>time.time()\<close> returns in the callback. The message classes
  and the publishers belong to the ROS libraries, not to the repository: assigning the
  motor list to \<open>data\<close> and publishing are taken to succeed.\<close>

definition timer_callback :: "pyfloat \<Rightarrow> Teleop \<Rightarrow> Teleop \<times> twist \<times> int list" where
  "timer_callback current_time self =
     (let self' = (if fgt (fsub current_time (last_keypress_time self)) TIMEOUT
                   then self\<lparr>x := lit_0_0, th := lit_0_0\<rparr> else self);
          tw = \<lparr>linear_x = fmul (x self') (speed self'),
                angular_z = fmul (th self') (speed self')\<rparr>
      in (self', tw, motors self'))"

section \<open>The key table\<close>

text \<open>\<open>xs[i] += d\<close> on a Python list: a negative index counts from the end, an index out
  of range raises IndexError.\<close>

definition motor_add :: "int \<Rightarrow> int \<Rightarrow> Teleop \<Rightarrow> py_error + Teleop" where
  "motor_add idx d t =
     (let n = int (length (motors t)); j = (if idx < 0 then n + idx else idx)
      in if 0 \<le> j \<and> j < n
         then Inr (t\<lparr>motors := (motors t)[nat j := motors t ! nat j + d]\<rparr>)
         else Inl IndexError)"

text \<open>What one pass through the body of the \<open>while\<close> loop of \<open>main\<close> does after the key
  has been read: go on with the loop, leave it (\<open>break\<close>), or raise, each with the
  state of the node at that point.\<close>

datatype outcome = Continue Teleop | Break Teleop | Raise py_error Teleop

fun state_of :: "outcome \<Rightarrow> Teleop" where
  "state_of (Continue t) = t"
| "state_of (Break t) = t"
| "state_of (Raise e t) = t"

definition ESC :: char where "ESC = CHR 0x1B"

definition key_up :: string where "key_up = [ESC, CHR ''['', CHR ''A'']"
definition key_down :: string where "key_down = [ESC, CHR ''['', CHR ''B'']"
definition key_right :: string where "key_right = [ESC, CHR ''['', CHR ''C'']"
definition key_left :: string where "key_left = [ESC, CHR ''['', CHR ''D'']"
definition key_ctrl_c :: string where "key_ctrl_c = [CHR 0x03]"

text \<open>Two updates of the motor array in a row, as the coupled keys do them.\<close>

definition motor_add2 :: "int \<Rightarrow> int \<Rightarrow> int \<Rightarrow> int \<Rightarrow> Teleop \<Rightarrow> outcome" where
  "motor_add2 i d j d' t =
     (case motor_add i d t of
        Inl err \<Rightarrow> Raise err t
      | Inr t1 \<Rightarrow> (case motor_add j d' t1 of
                    Inl err \<Rightarrow> Raise err t1
                  | Inr t2 \<Rightarrow> Continue t2))"

text \<open>The \<open>if\<close>/\<open>elif\<close> chain of \<open>main\<close>, in the order of the source. The status lines it
  prints change nothing in the state and are left out.\<close>

definition dispatch :: "string \<Rightarrow> Teleop \<Rightarrow> outcome" where
  "dispatch key t =
     (if key = key_up then Continue (t\<lparr>x := lit_1_0, th := lit_0_0\<rparr>)
      else if key = key_down then Continue (t\<lparr>x := fneg lit_1_0, th := lit_0_0\<rparr>)
      else if key = key_right then Continue (t\<lparr>th := fneg lit_1_0, x := lit_0_0\<rparr>)
      else if key = key_left then Continue (t\<lparr>th := lit_1_0, x := lit_0_0\<rparr>)
      else if lower key = ''s'' then Continue (t\<lparr>x := lit_0_0, th := lit_0_0\<rparr>)
      else if lower key = ''o'' then Continue (t\<lparr>speed := fmul (speed t) lit_1_1\<rparr>)
      else if lower key = ''p'' then Continue (t\<lparr>speed := fmul (speed t) lit_0_9\<rparr>)
      else if str_in key ''12345'' then
        (case py_int key of
           Inl err \<Rightarrow> Raise err t
         | Inr n \<Rightarrow> (case motor_add (n - 1) GRANULARITY t of
                       Inl err \<Rightarrow> Raise err t
                     | Inr t' \<Rightarrow> Continue t'))
      else if key = ''6'' then motor_add2 5 GRANULARITY 6 GRANULARITY t
      else if key = ''7'' then motor_add2 5 GRANULARITY 6 (- GRANULARITY) t
      else if str_in (upper key) ''QWERT'' then
        (case str_index ''QWERT'' (upper key) of
           Inl err \<Rightarrow> Raise err t
         | Inr idx \<Rightarrow> (case motor_add idx (- GRANULARITY) t of
                         Inl err \<Rightarrow> Raise err t
                       | Inr t' \<Rightarrow> Continue t'))
      else if upper key = ''Y'' then motor_add2 5 (- GRANULARITY) 6 (- GRANULARITY) t
      else if upper key = ''U'' then motor_add2 5 (- GRANULARITY) 6 GRANULARITY t
      else if key = key_ctrl_c then Break t
      else Continue t)"

text \<open>The loop body after \<open>getKey\<close>: the time of the keypress is stored first, then the
  key is looked up.\<close>

definition loop_body :: "pyfloat \<Rightarrow> string \<Rightarrow> Teleop \<Rightarrow> outcome" where
  "loop_body now key t = dispatch key (t\<lparr>last_keypress_time := now\<rparr>)"

section \<open>The terminal\<close>

text \<open>
  \<open>sys.stdin\<close> as the program meets it. A terminal has its attributes (\<open>termios\<close>), the
  input queue of the line discipline (characters typed and not yet read by the
  process) and the buffer of \<open>sys.stdin\<close> itself (characters the process has read from
  the descriptor and \<open>read\<close> has not returned yet). \<open>future\<close> is what happens at the
  terminal from now on, in order: characters are typed, the terminal hangs up, and, at
  a mark \<open>Op\<close>, the program carries out its next terminal operation. What stands after
  the last mark happens while the program waits in a read. A standard input that is
  not a terminal (a file, a pipe) is \<open>Not_a_terminal\<close>. The characters are those that
  \<open>sys.stdin\<close> decodes from the bytes typed.
\<close>

datatype termios = Cooked | Raw

datatype line = Connected | Hung_up | Not_a_terminal

datatype arrival = Typed string | Hangup | Op

record terminal =
  attrs :: termios
  line :: line
  queue :: string
  buffer :: string
  future :: "arrival list"

text \<open>One arrival: typed characters join the input queue; a hang-up ends the line, and
  the input still queued is lost.\<close>

fun arrive :: "terminal \<Rightarrow> arrival \<Rightarrow> terminal" where
  "arrive t (Typed cs) = (if line t = Connected then t\<lparr>queue := queue t @ cs\<rparr> else t)"
| "arrive t Hangup = (if line t = Connected then t\<lparr>line := Hung_up, queue := []\<rparr> else t)"
| "arrive t Op = t"

text \<open>The arrivals before the next mark, and those after it; \<open>None\<close> without a mark.\<close>

fun upto_op :: "arrival list \<Rightarrow> (arrival list \<times> arrival list) option" where
  "upto_op [] = None"
| "upto_op (Op # rest) = Some ([], rest)"
| "upto_op (a # rest) = map_option (\<lambda>(earlier, later). (a # earlier, later)) (upto_op rest)"

text \<open>What has happened at the terminal by the time the program carries out its next
  operation.\<close>

definition settle :: "terminal \<Rightarrow> terminal" where
  "settle t = (case upto_op (future t) of
                 None \<Rightarrow> t
               | Some (earlier, later) \<Rightarrow> foldl arrive (t\<lparr>future := later\<rparr>) earlier)"

text \<open>An operation on the terminal returns a value or raises, in a new state of the
  terminal, or never returns (\<open>None\<close>: it waits for input that never comes).\<close>

type_synonym 'a io = "terminal \<Rightarrow> ((py_error + 'a) \<times> terminal) option"

definition returns :: "'a \<Rightarrow> 'a io" where
  "returns v t = Some (Inr v, t)"

text \<open>One statement after the other: an exception, or waiting for ever, ends the
  sequence.\<close>

definition and_then :: "'a io \<Rightarrow> ('a \<Rightarrow> 'b io) \<Rightarrow> 'b io" where
  "and_then m f t = (case m t of
                       None \<Rightarrow> None
                     | Some (Inl err, t') \<Rightarrow> Some (Inl err, t')
                     | Some (Inr v, t') \<Rightarrow> f v t')"

text \<open>\<open>termios.tcgetattr\<close>, \<open>termios.tcsetattr(fd, TCSADRAIN, settings)\<close> and
  \<open>tty.setraw(fd)\<close>: each raises \<open>termios.error\<close> unless standard input is a terminal
  that is still there. \<open>tty.setraw\<close> changes the attributes with \<open>TCSAFLUSH\<close>, which
  discards the input that is queued and not read.\<close>

definition tcgetattr :: "termios io" where
  "tcgetattr t =
     (let t1 = settle t
      in if line t1 = Connected then Some (Inr (attrs t1), t1) else Some (Inl TermiosError, t1))"

definition tcsetattr :: "termios \<Rightarrow> unit io" where
  "tcsetattr settings t =
     (let t1 = settle t
      in if line t1 = Connected then Some (Inr (), t1\<lparr>attrs := settings\<rparr>)
         else Some (Inl TermiosError, t1))"

definition setraw :: "unit io" where
  "setraw t =
     (let t1 = settle t
      in if line t1 = Connected then Some (Inr (), t1\<lparr>attrs := Raw, queue := []\<rparr>)
         else Some (Inl TermiosError, t1))"

text \<open>
  \<open>sys.stdin\<close> fills its buffer until it holds \<open>n\<close> characters. Each read of the
  descriptor takes what is in the input queue; with an empty queue it waits for the
  next arrival. At a line that has hung up before the read, the read of the descriptor
  returns nothing and the filling stops (a short read); a hang-up that comes while
  the read waits raises OSError. Without any further arrival the read waits for ever.
  (A standard input that is not a terminal is never read: \<open>tty.setraw\<close> raises first.)
\<close>

function fill :: "nat \<Rightarrow> terminal \<Rightarrow> (py_error option \<times> terminal) option" where
  "fill n t =
     (if n \<le> length (buffer t) then Some (None, t)
      else if line t \<noteq> Connected then Some (None, t)
      else if queue t \<noteq> [] then fill n (t\<lparr>buffer := buffer t @ queue t, queue := []\<rparr>)
      else (case future t of
              [] \<Rightarrow> None
            | Typed cs # rest \<Rightarrow> fill n (t\<lparr>queue := cs, future := rest\<rparr>)
            | Hangup # rest \<Rightarrow> Some (Some OSError, t\<lparr>line := Hung_up, future := rest\<rparr>)
            | Op # rest \<Rightarrow> fill n (t\<lparr>future := rest\<rparr>)))"
  by pat_completeness auto
termination
  by (relation "measure (\<lambda>(n, t). 2 * length (future t) + (if queue t = [] then 0 else 1))") auto

declare fill.simps [simp del]

text \<open>\<open>sys.stdin.read(n)\<close>.\<close>

definition read :: "nat \<Rightarrow> string io" where
  "read n t =
     (case fill n (settle t) of
        None \<Rightarrow> None
      | Some (Some err, t') \<Rightarrow> Some (Inl err, t')
      | Some (None, t') \<Rightarrow> Some (Inr (take n (buffer t')), t'\<lparr>buffer := drop n (buffer t')\<rparr>))"

section \<open>Reading a key\<close>

definition getKey :: "termios \<Rightarrow> string io" where
  "getKey settings =
     and_then setraw (\<lambda>u.
     and_then (read 1) (\<lambda>key.
     and_then (if key = [ESC] then and_then (read 2) (\<lambda>more. returns (key @ more))
               else returns key) (\<lambda>key'.
     and_then (tcsetattr settings) (\<lambda>u.
     returns key'))))"

section \<open>The main loop and the shutdown path\<close>

text \<open>
  What the main thread works on: the node, standard input, and whether the executor
  that runs the timer is still spinning.
\<close>

record world =
  teleop :: Teleop
  stdin :: terminal
  spinning :: bool

text \<open>The \<open>while\<close> loop of \<open>main\<close>. \<open>clock i\<close> is what the \<open>i\<close>-th call of \<open>time.time()\<close>
  in the main thread returns (call 0 is the one in \<open>Teleop.__init__\<close>). The loop ends
  with the exception that left it, or with \<open>None\<close> after a \<open>break\<close>; it does not end
  (the outer \<open>None\<close>) when \<open>getKey\<close> waits for ever.\<close>

partial_function (option) main_loop ::
  "termios \<Rightarrow> (nat \<Rightarrow> pyfloat) \<Rightarrow> nat \<Rightarrow> world \<Rightarrow> (py_error option \<times> world) option" where
  "main_loop settings clock i w =
     (case getKey settings (stdin w) of
        None \<Rightarrow> None
      | Some (Inl err, tm) \<Rightarrow> Some (Some err, w\<lparr>stdin := tm\<rparr>)
      | Some (Inr key, tm) \<Rightarrow>
          (case loop_body (clock i) key (teleop w) of
             Continue t \<Rightarrow> main_loop settings clock (Suc i) (w\<lparr>teleop := t, stdin := tm\<rparr>)
           | Break t \<Rightarrow> Some (None, w\<lparr>teleop := t, stdin := tm\<rparr>)
           | Raise err t \<Rightarrow> Some (Some err, w\<lparr>teleop := t, stdin := tm\<rparr>)))"

declare main_loop.simps [code]

text \<open>
  How \<open>main\<close> ends. \<open>tcgetattr\<close> in its first line is outside the \<open>try\<close>: when it raises,
  nothing has been created. Otherwise the node is created and spun and the loop runs;
  the \<open>except\<close> clause prints the exception that left the loop, if any; the \<open>finally\<close>
  block zeroes the drive, shuts the executor down and sets the terminal back, and an
  exception raised there leaves \<open>main\<close>. The calls into the ROS library and
  \<open>time.sleep\<close> are taken to return, and no signal is delivered to the process.
\<close>

datatype ending =
  Failed_to_start py_error terminal
| Ended "py_error option" "py_error option" world

definition main :: "(nat \<Rightarrow> pyfloat) \<Rightarrow> terminal \<Rightarrow> ending option" where
  "main clock tm0 =
     (case tcgetattr tm0 of
        None \<Rightarrow> None
      | Some (Inl err, tm) \<Rightarrow> Some (Failed_to_start err tm)
      | Some (Inr settings, tm) \<Rightarrow>
          (let w0 = \<lparr>teleop = Teleop_init (clock 0), stdin = tm, spinning = True\<rparr>
           in case main_loop settings clock 1 w0 of
                None \<Rightarrow> None
              | Some (printed, w1) \<Rightarrow>
                  (let w2 = w1\<lparr>teleop := (teleop w1)\<lparr>x := lit_0_0, th := lit_0_0\<rparr>,
                              spinning := False\<rparr>
                   in case tcsetattr settings (stdin w2) of
                        None \<Rightarrow> None
                      | Some (Inl err, tm') \<Rightarrow> Some (Ended printed (Some err) (w2\<lparr>stdin := tm'\<rparr>))
                      | Some (Inr u, tm') \<Rightarrow> Some (Ended printed None (w2\<lparr>stdin := tm'\<rparr>)))))"


text \<open>A terminal that is there, with the attributes \<open>a\<close>, the characters \<open>ahead\<close> typed and
  not yet read, and nothing read by \<open>sys.stdin\<close> yet; and a clock that the main thread
  reads once a second.\<close>

definition fresh_terminal :: "termios \<Rightarrow> string \<Rightarrow> arrival list \<Rightarrow> terminal" where
  "fresh_terminal a ahead fut =
     \<lparr>attrs = a, line = Connected, queue = ahead, buffer = [], future = fut\<rparr>"


section \<open>Runs of the node\<close>

text \<open>
  The timer callback runs on the executor's thread, while the main thread waits for a
  key or handles one. A run is a sequence of events on the node, from the state that
  \<open>Teleop.__init__\<close> leaves: a key read at some time, a tick of the timer at some time,
  and the \<open>finally\<close> block of \<open>main\<close>. An event is taken as a whole (inside one, the
  fields are written one after the other); events after the loop has ended are allowed
  too, so that the runs cover every state the node reaches.
\<close>

datatype event = Key pyfloat string | Tick pyfloat | Shutdown

fun apply_event :: "Teleop \<Rightarrow> event \<Rightarrow> Teleop" where
  "apply_event t (Key now key) = state_of (loop_body now key t)"
| "apply_event t (Tick now) = fst (timer_callback now t)"
| "apply_event t Shutdown = t\<lparr>x := lit_0_0, th := lit_0_0\<rparr>"

definition exec :: "event list \<Rightarrow> Teleop \<Rightarrow> Teleop" where
  "exec evs t = foldl apply_event t evs"

definition run :: "event list \<Rightarrow> pyfloat \<Rightarrow> Teleop" where
  "run evs now0 = exec evs (Teleop_init now0)"

text \<open>The three values the source assigns to the drive intent.\<close>

definition unit_values :: "pyfloat set" where
  "unit_values = {fneg lit_1_0, lit_0_0, lit_1_0}"

text \<open>Two states of the node that differ at most in the entries of the motor array.\<close>

definition motors_only :: "Teleop \<Rightarrow> Teleop \<Rightarrow> bool" where
  "motors_only t t' = (t' = t\<lparr>motors := motors t'\<rparr> \<and> length (motors t') = length (motors t))"

text \<open>A positive normal double in canonical form, and a measure of its size that is
  32 times the exponent plus the leading five bits of the significand.\<close>

definition normal_pos :: "pyfloat \<Rightarrow> bool" where
  "normal_pos f = (case f of
     Finite s m e \<Rightarrow> \<not> s \<and> 2 ^ 52 \<le> m \<and> m < 2 ^ 53 \<and> - 1074 \<le> e \<and> e \<le> 971
   | Infinity s \<Rightarrow> False
   | NaN \<Rightarrow> False)"

definition rank :: "pyfloat \<Rightarrow> int" where
  "rank f = (case f of Finite s m e \<Rightarrow> 32 * e + m div 2 ^ 48 | Infinity s \<Rightarrow> 0 | NaN \<Rightarrow> 0)"

text \<open>The key \<open>o\<close> held down: \<open>n\<close> presses, ten a second, the first at time 0.\<close>

definition held_o :: "nat \<Rightarrow> event list" where
  "held_o n = map (\<lambda>i. Key (float_of_ratio (int i) 10) ''o'') [0..<n]"

section \<open>The empty key\<close>



section \<open>Evaluation of the float literals\<close>

lemma bitlen_numeral_step: "bitlen (numeral k) = bitlen (numeral k div 2) + 1"
  by (subst compute_bitlen) simp

lemma bitlen_1: "bitlen 1 = 1"
  by (subst compute_bitlen) simp

lemmas float_eval = float_of_ratio_def round_binary64_def Let_def bitlen_numeral_step bitlen_1

lemma lit_0_0_val: "lit_0_0 = Finite False 0 (- 1074)"
  by (simp add: lit_0_0_def float_eval)

lemma lit_1_0_val: "lit_1_0 = Finite False 4503599627370496 (- 52)"
  by (simp add: lit_1_0_def float_eval)

lemma lit_0_35_val: "lit_0_35 = Finite False 6305039478318694 (- 54)"
  by (simp add: lit_0_35_def float_eval)

lemma lit_1_1_val: "lit_1_1 = Finite False 4953959590107546 (- 52)"
  by (simp add: lit_1_1_def float_eval)

lemma lit_0_9_val: "lit_0_9 = Finite False 8106479329266893 (- 53)"
  by (simp add: lit_0_9_def float_eval)

lemma TIMEOUT_val: "TIMEOUT = Finite False 5629499534213120 (- 50)"
  by (simp add: TIMEOUT_def float_eval)

text \<open>The exact values of the literals, as \<open>float.as_integer_ratio\<close> gives them.\<close>

lemma valof_literals:
  "valof lit_0_35 = Some (3152519739159347 / 9007199254740992)"
  "valof lit_1_1 = Some (2476979795053773 / 2251799813685248)"
  "valof lit_0_9 = Some (8106479329266893 / 9007199254740992)"
  "valof TIMEOUT = Some 5"
  by (simp_all add: lit_0_35_val lit_1_1_val lit_0_9_val TIMEOUT_val signed_def power_int_minus)

lemmas key_defs = key_up_def key_down_def key_right_def key_left_def key_ctrl_c_def ESC_def

lemmas str_defs = lower_def upper_def lower_char_def upper_char_def ascii_uppercase_def
  ascii_lowercase_def str_in_def str_index_def py_int_def digit_of_def

section \<open>What a key can change\<close>

lemma motors_only_refl: "motors_only t t"
  by (simp add: motors_only_def)

lemma motors_only_trans: "motors_only t t1 \<Longrightarrow> motors_only t1 t2 \<Longrightarrow> motors_only t t2"
  unfolding motors_only_def
  by (metis Teleop.surjective Teleop.update_convs(2) Teleop.select_convs)

lemma motor_add_Inr: "motor_add i d t = Inr t' \<Longrightarrow> motors_only t t'"
  by (auto simp: motor_add_def motors_only_def Let_def split: if_splits)

lemma case_motor_add:
  "motors_only t (state_of (case motor_add i d t of Inl err \<Rightarrow> Raise err t | Inr t' \<Rightarrow> Continue t'))"
  by (cases "motor_add i d t") (simp_all add: motors_only_refl motor_add_Inr)

lemma motor_add2_motors_only: "motors_only t (state_of (motor_add2 i d j d' t))"
proof (cases "motor_add i d t")
  case (Inl err)
  then show ?thesis by (simp add: motor_add2_def motors_only_refl)
next
  case (Inr t1)
  note a = this
  show ?thesis
  proof (cases "motor_add j d' t1")
    case (Inl err)
    with a show ?thesis by (simp add: motor_add2_def motor_add_Inr)
  next
    case (Inr t2)
    with a show ?thesis
      by (simp add: motor_add2_def motors_only_trans [OF motor_add_Inr motor_add_Inr])
  qed
qed

lemma digit_branch:
  "motors_only t (state_of (case py_int key of
       Inl err \<Rightarrow> Raise err t
     | Inr n \<Rightarrow> (case motor_add (n - 1) d t of
                   Inl err \<Rightarrow> Raise err t
                 | Inr t' \<Rightarrow> Continue t')))"
  by (cases "py_int key") (simp_all add: motors_only_refl case_motor_add)

lemma letter_branch:
  "motors_only t (state_of (case str_index s key of
       Inl err \<Rightarrow> Raise err t
     | Inr idx \<Rightarrow> (case motor_add idx d t of
                     Inl err \<Rightarrow> Raise err t
                   | Inr t' \<Rightarrow> Continue t')))"
  by (cases "str_index s key") (simp_all add: motors_only_refl case_motor_add)

lemma motors_only_fields:
  "motors_only t t' \<Longrightarrow>
     speed t' = speed t \<and> x t' = x t \<and> th t' = th t \<and>
     last_keypress_time t' = last_keypress_time t \<and> length (motors t') = length (motors t)"
  unfolding motors_only_def
  by (metis Teleop.select_convs Teleop.surjective Teleop.update_convs(2))

lemmas motor_branches = digit_branch letter_branch motor_add2_motors_only

lemmas motor_branch_last = motor_branches [THEN motors_only_fields, THEN conjunct2, THEN conjunct2, THEN conjunct2, THEN conjunct1]
lemmas motor_branch_length = motor_branches [THEN motors_only_fields, THEN conjunct2, THEN conjunct2, THEN conjunct2, THEN conjunct2]
lemmas motor_branch_speed = motor_branches [THEN motors_only_fields, THEN conjunct1]
lemmas motor_branch_x = motor_branches [THEN motors_only_fields, THEN conjunct2, THEN conjunct1]
lemmas motor_branch_th = motor_branches [THEN motors_only_fields, THEN conjunct2, THEN conjunct2, THEN conjunct1]

lemma dispatch_last_keypress_time:
  "last_keypress_time (state_of (dispatch key t)) = last_keypress_time t"
  by (simp add: dispatch_def motor_branch_last)

lemma dispatch_length_motors:
  "length (motors (state_of (dispatch key t))) = length (motors t)"
  by (simp add: dispatch_def motor_branch_length)

lemma dispatch_x: "x t \<in> unit_values \<Longrightarrow> x (state_of (dispatch key t)) \<in> unit_values"
  by (simp add: dispatch_def motor_branch_x unit_values_def)

lemma dispatch_th: "th t \<in> unit_values \<Longrightarrow> th (state_of (dispatch key t)) \<in> unit_values"
  by (simp add: dispatch_def motor_branch_th unit_values_def)

section \<open>Invariants of every run\<close>

lemma timer_callback_state:
  "fst (timer_callback now s) =
     (if fgt (fsub now (last_keypress_time s)) TIMEOUT
      then s\<lparr>x := lit_0_0, th := lit_0_0\<rparr> else s)"
  by (simp add: timer_callback_def Let_def)

lemma apply_event_invariant:
  "length (motors t) = 7 \<and> x t \<in> unit_values \<and> th t \<in> unit_values \<Longrightarrow>
   length (motors (apply_event t ev)) = 7 \<and> x (apply_event t ev) \<in> unit_values \<and>
   th (apply_event t ev) \<in> unit_values"
proof (cases ev)
  case (Key now key)
  assume "length (motors t) = 7 \<and> x t \<in> unit_values \<and> th t \<in> unit_values"
  with Key show ?thesis
    by (simp add: loop_body_def dispatch_length_motors dispatch_x dispatch_th)
next
  case (Tick now)
  assume "length (motors t) = 7 \<and> x t \<in> unit_values \<and> th t \<in> unit_values"
  with Tick show ?thesis
    by (simp add: timer_callback_state unit_values_def)
next
  case Shutdown
  assume "length (motors t) = 7 \<and> x t \<in> unit_values \<and> th t \<in> unit_values"
  with Shutdown show ?thesis
    by (simp add: unit_values_def)
qed

lemma exec_invariant:
  "length (motors t) = 7 \<and> x t \<in> unit_values \<and> th t \<in> unit_values \<Longrightarrow>
   length (motors (exec evs t)) = 7 \<and> x (exec evs t) \<in> unit_values \<and>
   th (exec evs t) \<in> unit_values"
proof (induction evs arbitrary: t)
  case Nil
  then show ?case by (simp add: exec_def)
next
  case (Cons ev evs)
  from Cons.IH [OF apply_event_invariant [OF Cons.prems, of ev]]
  show ?case by (simp add: exec_def)
qed

lemma run_invariant:
  "length (motors (run evs now0)) = 7 \<and> x (run evs now0) \<in> unit_values \<and>
   th (run evs now0) \<in> unit_values"
  unfolding run_def
  by (rule exec_invariant) (simp add: Teleop_init_def unit_values_def)

section \<open>Rounding a product\<close>

lemma bitlen_eqI:
  assumes "2 ^ n \<le> M" "M < 2 ^ Suc n"
  shows "bitlen M = int n + 1"
proof (rule antisym)
  have a: "nat (int n + 1) = Suc n"
    by simp
  show "bitlen M \<le> int n + 1"
    using assms(2) by (simp only: bitlen_le_iff_power a) simp
  show "int n + 1 \<le> bitlen M"
    using assms(1) by (simp only: bitlen_ge_iff_power a) simp
qed

lemma round_shift:
  assumes M: "2 ^ (52 + k) \<le> M" "M < 2 ^ (53 + k)" and k: "0 < k"
    and E: "- 1074 \<le> E + int k"
  shows "round_binary64 sg M E = Infinity sg \<or>
    (\<exists>m' e'. round_binary64 sg M E = Finite sg m' e' \<and> 2 ^ 52 \<le> m' \<and> m' < 2 ^ 53 \<and>
        e' \<le> 971 \<and>
        ((e' = E + int k \<and> M div 2 ^ k \<le> m') \<or> e' = E + int k + 1))"
proof -
  have b: "bitlen M = 53 + int k"
    using bitlen_eqI [of "52 + k" M] M by (simp add: add.commute)
  have M0: "M \<noteq> 0"
    using M(1) by (smt (verit) zero_less_power)
  define q where "q = M div 2 ^ k"
  define r where "r = M mod 2 ^ k"
  define m where "m = (if r < 2 ^ (k - 1) then q else if 2 ^ (k - 1) < r then q + 1
                       else if even q then q else q + 1)"
  have P: "(0::int) < 2 ^ k"
    by simp
  have q: "2 ^ 52 \<le> q" "q < 2 ^ 53"
  proof -
    have "(2::int) ^ 52 * 2 ^ k \<le> M"
      using M(1) by (simp add: power_add)
    from zdiv_mono1 [OF this P] show "2 ^ 52 \<le> q"
      unfolding q_def by simp
    have "q * 2 ^ k \<le> M"
      unfolding q_def using div_mult_mod_eq [of M "2 ^ k"] pos_mod_sign [OF P, of M]
      by linarith
    also have "M < 2 ^ 53 * 2 ^ k"
      using M(2) by (simp add: power_add)
    finally show "q < 2 ^ 53"
      using P by (simp only: mult_less_cancel_right)
  qed
  have m: "q \<le> m" "m \<le> q + 1"
    by (simp_all add: m_def)
  have res: "round_binary64 sg M E =
      (if 971 < (if m = 2 ^ 53 then E + int k + 1 else E + int k) then Infinity sg
       else Finite sg (if m = 2 ^ 53 then 2 ^ 52 else m)
              (if m = 2 ^ 53 then E + int k + 1 else E + int k))"
    using M0 k E
    by (simp add: round_binary64_def b Let_def q_def r_def m_def max_def)
  show ?thesis
  proof (cases "m = 2 ^ 53")
    case True
    then show ?thesis
      unfolding res by simp
  next
    case False
    with m q have "2 ^ 52 \<le> m" "m < 2 ^ 53"
      by simp_all
    with False m(1) [unfolded q_def] show ?thesis
      unfolding res by simp
  qed
qed

section \<open>Growth of the speed under the key o\<close>

lemma rank_Finite: "rank (Finite s m e) = 32 * e + m div 2 ^ 48"
  by (simp add: rank_def)

lemma normal_pos_Finite:
  "normal_pos (Finite s m e) = (\<not> s \<and> 2 ^ 52 \<le> m \<and> m < 2 ^ 53 \<and> - 1074 \<le> e \<and> e \<le> 971)"
  by (simp add: normal_pos_def)

lemma rank_normal_le: "normal_pos f \<Longrightarrow> rank f \<le> 31103"
  by (cases f) (auto simp: normal_pos_def rank_def)

lemma speed_up_step:
  assumes "normal_pos f"
  shows "fmul f lit_1_1 = Infinity False \<or>
         (normal_pos (fmul f lit_1_1) \<and> rank f < rank (fmul f lit_1_1))"
proof -
  from assms obtain m e where f: "f = Finite False m e"
    and m: "2 ^ 52 \<le> m" "m < 2 ^ 53" and e: "- 1074 \<le> e" "e \<le> 971"
    by (cases f) (auto simp: normal_pos_def)
  define M where "M = m * 4953959590107546"
  have mul: "fmul f lit_1_1 = round_binary64 False M (e - 52)"
    by (simp add: f lit_1_1_val M_def)
  have hi: "m div 2 ^ 48 \<le> 31"
    using m by simp
  have rf: "rank f = 32 * e + m div 2 ^ 48"
    by (simp add: f rank_Finite)
  consider (low) "M < 2 ^ 105" | (high) "2 ^ 105 \<le> M"
    by linarith
  then show ?thesis
  proof cases
    case low
    have lo: "2 ^ (52 + 52) \<le> M"
      using m by (simp add: M_def)
    have up: "M < 2 ^ (53 + 52)"
      using low by simp
    have "(m + 2 ^ 48) * 2 ^ 52 \<le> M"
      using m by (simp add: M_def)
    from zdiv_mono1 [OF this, of "2 ^ 52"] have q: "m + 2 ^ 48 \<le> M div 2 ^ 52"
      by simp
    from round_shift [OF lo up, of "e - 52" False] e
    consider "round_binary64 False M (e - 52) = Infinity False"
      | m' where "round_binary64 False M (e - 52) = Finite False m' e"
          "2 ^ 52 \<le> m'" "m' < 2 ^ 53" "M div 2 ^ 52 \<le> m'"
      | m' where "round_binary64 False M (e - 52) = Finite False m' (e + 1)"
          "2 ^ 52 \<le> m'" "m' < 2 ^ 53" "e + 1 \<le> 971"
      by auto
    then show ?thesis
    proof cases
      case 1
      then show ?thesis by (simp add: mul)
    next
      case 2
      from 2(4) q have "m + 2 ^ 48 \<le> m'"
        by linarith
      then have "m div 2 ^ 48 < m' div 2 ^ 48"
        by simp
      with 2 e show ?thesis
        by (simp add: mul rf normal_pos_Finite rank_Finite)
    next
      case 3
      from 3(2) have "16 \<le> m' div 2 ^ 48"
        by simp
      with 3 e hi show ?thesis
        by (simp add: mul rf normal_pos_Finite rank_Finite)
    qed
  next
    case high
    have lo: "2 ^ (52 + 53) \<le> M"
      using high by simp
    have up: "M < 2 ^ (53 + 53)"
      using m by (simp add: M_def)
    from round_shift [OF lo up, of "e - 52" False] e
    consider "round_binary64 False M (e - 52) = Infinity False"
      | m' e' where "round_binary64 False M (e - 52) = Finite False m' e'"
          "2 ^ 52 \<le> m'" "m' < 2 ^ 53" "e' \<le> 971" "e + 1 \<le> e'"
      by auto
    then show ?thesis
    proof cases
      case 1
      then show ?thesis by (simp add: mul)
    next
      case 2
      from 2(2) have "16 \<le> m' div 2 ^ 48"
        by simp
      with 2 e hi show ?thesis
        by (simp add: mul rf normal_pos_Finite rank_Finite)
    qed
  qed
qed

lemma speed_up_Infinity: "fmul (Infinity False) lit_1_1 = Infinity False"
  by (simp add: lit_1_1_val)

lemma key_o: "state_of (loop_body now ''o'' t)
    = t\<lparr>last_keypress_time := now, speed := fmul (speed t) lit_1_1\<rparr>"
  by (simp add: loop_body_def dispatch_def key_defs str_defs)

lemma exec_Cons: "exec (ev # evs) t = exec evs (apply_event t ev)"
  by (simp add: exec_def)

lemma exec_append: "exec (evs @ evs') t = exec evs' (exec evs t)"
  by (simp add: exec_def)

lemma speed_grows:
  "speed t = Infinity False \<or> (normal_pos (speed t) \<and> r \<le> rank (speed t)) \<Longrightarrow>
   speed (exec (map (\<lambda>now. Key now ''o'') ts) t) = Infinity False \<or>
   (normal_pos (speed (exec (map (\<lambda>now. Key now ''o'') ts) t)) \<and>
    r + int (length ts) \<le> rank (speed (exec (map (\<lambda>now. Key now ''o'') ts) t)))"
proof (induction ts arbitrary: t r)
  case Nil
  then show ?case by (simp add: exec_def)
next
  case (Cons now ts)
  let ?t = "apply_event t (Key now ''o'')"
  have "speed ?t = Infinity False \<or> (normal_pos (speed ?t) \<and> r + 1 \<le> rank (speed ?t))"
  proof (cases "speed t = Infinity False")
    case True
    then show ?thesis by (simp add: key_o speed_up_Infinity)
  next
    case False
    with Cons.prems have n: "normal_pos (speed t)" and r: "r \<le> rank (speed t)"
      by simp_all
    from speed_up_step [OF n] r show ?thesis
      by (auto simp: key_o)
  qed
  from Cons.IH [OF this] show ?case
    by (simp add: exec_Cons add.assoc)
qed

lemma speed_overflows:
  assumes "31104 + 1706 \<le> length ts"
  shows "speed (run (map (\<lambda>now. Key now ''o'') ts) now0) = Infinity False"
proof -
  let ?s = "speed (run (map (\<lambda>now. Key now ''o'') ts) now0)"
  have "speed (Teleop_init now0) = Infinity False \<or>
      (normal_pos (speed (Teleop_init now0)) \<and> - 1706 \<le> rank (speed (Teleop_init now0)))"
    by (simp add: Teleop_init_def lit_0_35_val normal_pos_Finite rank_Finite)
  from speed_grows [OF this, of ts]
  have "?s = Infinity False \<or> (normal_pos ?s \<and> - 1706 + int (length ts) \<le> rank ?s)"
    by (simp add: run_def)
  with rank_normal_le [of ?s] assms show ?thesis
    by auto
qed

lemma held_o_map: "held_o n = map (\<lambda>now. Key now ''o'') (map (\<lambda>i. float_of_ratio (int i) 10) [0..<n])"
  by (simp add: held_o_def)

lemma speed_held_o: "speed (run (held_o 32810) now0) = Infinity False"
  unfolding held_o_map by (rule speed_overflows) simp

lemma last_held_o:
  "last_keypress_time (run (held_o (Suc n)) now0) = float_of_ratio (int n) 10"
  by (simp add: held_o_def run_def exec_append exec_Cons exec_def key_o)

lemma replicate_10: "replicate 10 a = [a, a, a, a, a, a, a, a, a, a]"
  by (simp add: numeral_eq_Suc)

lemma speed_ten_presses:
  "speed (run (replicate 10 (Key now ''o'')) now0) = Finite False 8176824303760984 (- 53)"
  by (simp add: run_def exec_def key_o Teleop_init_def lit_0_35_val lit_1_1_val replicate_10
      round_binary64_def Let_def bitlen_numeral_step bitlen_1)

lemmas cmp_eval = fgt_def aligned_def signed_def

lemma valof_lits:
  "valof lit_0_0 = Some 0" "valof lit_1_0 = Some 1" "valof (fneg lit_1_0) = Some (- 1)"
  by (simp_all add: lit_0_0_val lit_1_0_val signed_def power_int_minus)

lemma unit_values_bounds:
  "v \<in> unit_values \<Longrightarrow> fle (fneg lit_1_0) v \<and> fle v lit_1_0"
  by (auto simp: unit_values_def fle_def lit_0_0_val lit_1_0_val aligned_def signed_def)

section \<open>The watchdog and the publisher\<close>

text \<open>
  C1, as amended. On a tick at which \<open>current_time - last_keypress_time > TIMEOUT\<close> holds,
  the published Twist has \<open>linear.x == 0\<close> and \<open>angular.z == 0\<close>, whatever the drive intent
  was before the tick, provided that \<open>speed\<close> is a finite number. (The callback zeroes
  \<open>x\<close> and \<open>th\<close> and publishes \<open>0.0 * speed\<close>; that product is zero for a finite speed only.)
\<close>

theorem watchdog_publishes_zero:
  "fgt (fsub now (last_keypress_time s)) TIMEOUT \<Longrightarrow> is_finite (speed s) \<Longrightarrow>
   feq (linear_x (fst (snd (timer_callback now s)))) lit_0_0 \<and>
   feq (angular_z (fst (snd (timer_callback now s)))) lit_0_0"
  by (cases "speed s")
    (simp_all add: timer_callback_def Let_def lit_0_0_val round_binary64_def aligned_def signed_def)

text \<open>
  C1, an instance: Up is pressed at time 0.0 in the initial state, so that \<open>x\<close> is 1.0, and
  the timer ticks at time 6.0.
\<close>

theorem watchdog_publishes_zero_witness:
  "fgt (fsub (float_of_ratio 6 1)
          (last_keypress_time (state_of (dispatch key_up (Teleop_init lit_0_0))))) TIMEOUT \<and>
   is_finite (speed (state_of (dispatch key_up (Teleop_init lit_0_0)))) \<and>
   x (state_of (dispatch key_up (Teleop_init lit_0_0))) = lit_1_0 \<and>
   feq (linear_x (fst (snd (timer_callback (float_of_ratio 6 1)
          (state_of (dispatch key_up (Teleop_init lit_0_0))))))) lit_0_0 \<and>
   feq (angular_z (fst (snd (timer_callback (float_of_ratio 6 1)
          (state_of (dispatch key_up (Teleop_init lit_0_0))))))) lit_0_0"
proof -
  have s: "state_of (dispatch key_up t) = t\<lparr>x := lit_1_0, th := lit_0_0\<rparr>" for t
    by (simp add: dispatch_def)
  have a: "fgt (fsub (float_of_ratio 6 1)
          (last_keypress_time (state_of (dispatch key_up (Teleop_init lit_0_0))))) TIMEOUT"
    by (simp add: s Teleop_init_def lit_0_0_val TIMEOUT_val float_eval cmp_eval)
  have b: "is_finite (speed (state_of (dispatch key_up (Teleop_init lit_0_0))))"
    by (simp add: s Teleop_init_def lit_0_35_val)
  from watchdog_publishes_zero [OF a b] a b show ?thesis
    by (simp add: s)
qed

text \<open>
  C1 as stated fails once the speed has overflowed. The key \<open>o\<close> is pressed 32810 times,
  the last time at 3280.9 s, which leaves \<open>speed\<close> at infinity (no key lowers it from
  there); the timer ticks at 3290 s, more than 5 s later. The watchdog zeroes \<open>x\<close>, and
  the callback publishes \<open>0.0 * inf\<close>, which is NaN and not equal to 0.
\<close>

theorem watchdog_overflow_counterexample:
  "fgt (fsub (float_of_ratio 3290 1) (last_keypress_time (run (held_o 32810) lit_0_0))) TIMEOUT \<and>
   linear_x (fst (snd (timer_callback (float_of_ratio 3290 1) (run (held_o 32810) lit_0_0)))) = NaN \<and>
   \<not> feq (linear_x (fst (snd (timer_callback (float_of_ratio 3290 1)
           (run (held_o 32810) lit_0_0))))) lit_0_0"
proof -
  have l: "last_keypress_time (run (held_o 32810) now0) = float_of_ratio 32809 10" for now0
    using last_held_o [of 32809 now0] by simp
  have a: "fgt (fsub (float_of_ratio 3290 1) (float_of_ratio 32809 10)) TIMEOUT"
    by (simp add: TIMEOUT_val float_eval cmp_eval)
  show ?thesis
    using a by (simp add: l timer_callback_def Let_def speed_held_o lit_0_0_val)
qed

text \<open>
  C2. On every tick the published Twist is \<open>linear.x = x * speed\<close> and
  \<open>angular.z = th * speed\<close> for the values of \<open>x\<close>, \<open>th\<close> and \<open>speed\<close> of the node after the
  watchdog check: with the speed of the node before the tick, the product is taken with
  0.0 when the watchdog fires on this tick and with the \<open>x\<close> and \<open>th\<close> of the node before
  the tick when it does not. The motor message carries the motor array of the node,
  which has 7 entries in every run.
\<close>

theorem timer_callback_publishes:
  "linear_x (fst (snd (timer_callback now s)))
     = fmul (if fgt (fsub now (last_keypress_time s)) TIMEOUT then lit_0_0 else x s) (speed s) \<and>
   angular_z (fst (snd (timer_callback now s)))
     = fmul (if fgt (fsub now (last_keypress_time s)) TIMEOUT then lit_0_0 else th s) (speed s) \<and>
   snd (snd (timer_callback now s)) = motors s \<and>
   linear_x (fst (snd (timer_callback now s)))
     = fmul (x (fst (timer_callback now s))) (speed (fst (timer_callback now s))) \<and>
   angular_z (fst (snd (timer_callback now s)))
     = fmul (th (fst (timer_callback now s))) (speed (fst (timer_callback now s))) \<and>
   snd (snd (timer_callback now s)) = motors (fst (timer_callback now s)) \<and>
   length (snd (snd (timer_callback now (run evs now0)))) = 7"
  using run_invariant [of evs now0]
  by (simp add: timer_callback_def Let_def)

text \<open>
  C3. A tick on which the watchdog fires changes the fields \<open>x\<close> and \<open>th\<close> only, a tick on
  which it does not fire changes nothing; the motor array and the speed (and the time of
  the last keypress) are the same after every tick.
\<close>

theorem timer_callback_frame:
  "fst (timer_callback now s) =
     (if fgt (fsub now (last_keypress_time s)) TIMEOUT
      then s\<lparr>x := lit_0_0, th := lit_0_0\<rparr> else s) \<and>
   motors (fst (timer_callback now s)) = motors s \<and>
   speed (fst (timer_callback now s)) = speed s \<and>
   last_keypress_time (fst (timer_callback now s)) = last_keypress_time s"
  by (simp add: timer_callback_def Let_def)

section \<open>The keys\<close>

text \<open>
  C4, as amended. For every key the loop reads, \<open>last_keypress_time\<close> is set to the time
  of the read before the key is looked up in the table, whether or not the key matches
  an entry: after the loop body it is that time, for every key.
\<close>

theorem keypress_time_updated:
  "loop_body now key t = dispatch key (t\<lparr>last_keypress_time := now\<rparr>) \<and>
   last_keypress_time (state_of (loop_body now key t)) = now"
  by (simp add: loop_body_def dispatch_last_keypress_time)

text \<open>
  C4 as stated fails for a key outside the table: \<open>z\<close> changes nothing in the state it is
  looked up in, and yet the loop body has moved \<open>last_keypress_time\<close> from 0.0 to 1.0.
\<close>

theorem noop_key_timestamp_counterexample:
  "dispatch ''z'' (Teleop_init lit_0_0) = Continue (Teleop_init lit_0_0) \<and>
   last_keypress_time (state_of (loop_body lit_1_0 ''z'' (Teleop_init lit_0_0)))
     \<noteq> last_keypress_time (Teleop_init lit_0_0)"
  by (simp add: loop_body_def dispatch_def key_defs str_defs Teleop_init_def
      lit_0_0_val lit_1_0_val)

text \<open>
  C5. With the 7 motor entries of the node, each of the keys 6, 7, y, Y, u, U goes on
  with the loop in the state in which exactly the entries 5 and 6 of the motor array
  have changed, by (+10, +10) for 6, (+10, -10) for 7, (-10, -10) for y and Y,
  (-10, +10) for u and U; every other entry and every other field is as before.
\<close>

theorem coupled_keys:
  "length (motors t) = 7 \<Longrightarrow>
   dispatch ''6'' t = Continue (t\<lparr>motors := (motors t)[5 := motors t ! 5 + 10, 6 := motors t ! 6 + 10]\<rparr>) \<and>
   dispatch ''7'' t = Continue (t\<lparr>motors := (motors t)[5 := motors t ! 5 + 10, 6 := motors t ! 6 - 10]\<rparr>) \<and>
   dispatch ''y'' t = Continue (t\<lparr>motors := (motors t)[5 := motors t ! 5 - 10, 6 := motors t ! 6 - 10]\<rparr>) \<and>
   dispatch ''Y'' t = Continue (t\<lparr>motors := (motors t)[5 := motors t ! 5 - 10, 6 := motors t ! 6 - 10]\<rparr>) \<and>
   dispatch ''u'' t = Continue (t\<lparr>motors := (motors t)[5 := motors t ! 5 - 10, 6 := motors t ! 6 + 10]\<rparr>) \<and>
   dispatch ''U'' t = Continue (t\<lparr>motors := (motors t)[5 := motors t ! 5 - 10, 6 := motors t ! 6 + 10]\<rparr>)"
  by (simp add: dispatch_def key_defs str_defs motor_add2_def motor_add_def GRANULARITY_def)

text \<open>C5, an instance: the key 7 in the initial state.\<close>

theorem coupled_keys_witness:
  "length (motors (Teleop_init lit_0_0)) = 7 \<and>
   dispatch ''7'' (Teleop_init lit_0_0)
     = Continue ((Teleop_init lit_0_0)\<lparr>motors := [0, 0, 0, 0, 0, 10, - 10]\<rparr>)"
  using coupled_keys [of "Teleop_init lit_0_0"]
  by (simp add: Teleop_init_def numeral_eq_Suc)

text \<open>
  C6. Each arrow key assigns both fields of the drive intent (Up: \<open>x = 1.0\<close>, \<open>th = 0.0\<close>;
  Down: \<open>x = -1.0\<close>, \<open>th = 0.0\<close>; Right: \<open>th = -1.0\<close>, \<open>x = 0.0\<close>; Left: \<open>th = 1.0\<close>,
  \<open>x = 0.0\<close>), so that from any state the keys Left, Right leave \<open>th = -1.0\<close> and
  \<open>x = 0.0\<close>.
\<close>

theorem arrow_keys:
  "dispatch key_up t = Continue (t\<lparr>x := lit_1_0, th := lit_0_0\<rparr>) \<and>
   dispatch key_down t = Continue (t\<lparr>x := fneg lit_1_0, th := lit_0_0\<rparr>) \<and>
   dispatch key_right t = Continue (t\<lparr>th := fneg lit_1_0, x := lit_0_0\<rparr>) \<and>
   dispatch key_left t = Continue (t\<lparr>th := lit_1_0, x := lit_0_0\<rparr>) \<and>
   th (exec [Key a key_left, Key b key_right] t) = fneg lit_1_0 \<and>
   x (exec [Key a key_left, Key b key_right] t) = lit_0_0 \<and>
   valof lit_1_0 = Some 1 \<and> valof (fneg lit_1_0) = Some (- 1) \<and> valof lit_0_0 = Some 0"
  by (simp add: dispatch_def key_defs exec_def loop_body_def valof_lits)

text \<open>
  C7. In every run (keys, ticks and the shutdown block in any order, from the initial
  state) \<open>x\<close> and \<open>th\<close> are each one of -1.0, 0.0 and 1.0, hence within [-1, 1].
\<close>

theorem drive_intent_bounded:
  "x (run evs now0) \<in> {fneg lit_1_0, lit_0_0, lit_1_0} \<and>
   th (run evs now0) \<in> {fneg lit_1_0, lit_0_0, lit_1_0} \<and>
   fle (fneg lit_1_0) (x (run evs now0)) \<and> fle (x (run evs now0)) lit_1_0 \<and>
   fle (fneg lit_1_0) (th (run evs now0)) \<and> fle (th (run evs now0)) lit_1_0"
  using run_invariant [of evs now0] unit_values_bounds [of "x (run evs now0)"]
    unit_values_bounds [of "th (run evs now0)"]
  by (simp add: unit_values_def)

text \<open>
  C8, as amended. The speed starts at the double 0.35; each o or O replaces it by the
  double product \<open>speed * 1.1\<close> and each p or P by \<open>speed * 0.9\<close>, with no clamp (held
  down, o takes the speed to infinity). Ten presses of o from the initial state give
  the double 8176824303760984 * 2^-53 = 0.9078098610350009, which is within 10^-15 of
  0.35 * 1.1^10.
\<close>

theorem speed_scaling:
  "speed (Teleop_init now0) = lit_0_35 \<and>
   valof lit_0_35 = Some (3152519739159347 / 9007199254740992) \<and>
   speed (state_of (dispatch ''o'' t)) = fmul (speed t) lit_1_1 \<and>
   speed (state_of (dispatch ''O'' t)) = fmul (speed t) lit_1_1 \<and>
   speed (state_of (dispatch ''p'' t)) = fmul (speed t) lit_0_9 \<and>
   speed (state_of (dispatch ''P'' t)) = fmul (speed t) lit_0_9 \<and>
   speed (run (replicate 10 (Key now ''o'')) now0) = Finite False 8176824303760984 (- 53) \<and>
   valof (Finite False 8176824303760984 (- 53)) = Some (1022103037970123 / 1125899906842624) \<and>
   \<bar>1022103037970123 / 1125899906842624 - 35 / 100 * (11 / 10) ^ 10\<bar> < (1 / 10 ^ 15 :: rat) \<and>
   speed (run (held_o 32810) now0) = Infinity False"
  by (simp add: speed_ten_presses speed_held_o Teleop_init_def dispatch_def key_defs str_defs
      lit_0_35_val signed_def power_int_minus power_divide)

text \<open>
  C8 as stated fails: after ten presses of o the speed is not the number 0.35 * 1.1^10,
  nor the double nearest to that number, nor the double that the expression
  \<open>0.35 * 1.1 ** 10\<close> evaluates to with a correctly rounded power.
\<close>

theorem speed_ten_presses_counterexample:
  "valof (speed (run (replicate 10 (Key lit_0_0 ''o'')) lit_0_0))
     \<noteq> Some (35 / 100 * (11 / 10) ^ 10) \<and>
   \<not> feq (speed (run (replicate 10 (Key lit_0_0 ''o'')) lit_0_0))
         (float_of_ratio (35 * 11 ^ 10) (100 * 10 ^ 10)) \<and>
   \<not> feq (speed (run (replicate 10 (Key lit_0_0 ''o'')) lit_0_0))
         (fmul lit_0_35 (round_binary64 False (4953959590107546 ^ 10) (- 520)))"
  by (simp add: speed_ten_presses lit_0_35_val float_eval cmp_eval power_int_minus power_divide)

section \<open>What getKey returns\<close>







lemma setraw_ok: "setraw t = Some (Inr u, t') \<Longrightarrow> line t' = Connected \<and> attrs t' = Raw"
  by (auto simp: setraw_def Let_def split: if_splits)




lemmas io_defs = getKey_def and_then_def returns_def setraw_def tcsetattr_def tcgetattr_def
  read_def settle_def Let_def fresh_terminal_def





section \<open>The keys that reach the chain\<close>

















section \<open>How the loop and main end\<close>




lemmas run_defs = main_def main_loop.simps io_defs fill.simps loop_body_def dispatch_def
  key_defs str_defs Teleop_init_def



lemma main_ctrl_c:
  "main clock (fresh_terminal a0 ahead [Typed key_up, Typed key_ctrl_c])
   = Some (Ended None None
       \<lparr>teleop = \<lparr>speed = lit_0_35, motors = replicate 7 0, x = lit_0_0,
                   th = lit_0_0, last_keypress_time = clock 2\<rparr>,
        stdin = \<lparr>attrs = a0, line = Connected, queue = [], buffer = [], future = []\<rparr>,
        spinning = False\<rparr>)"
  by (simp add: run_defs) (simp add: numeral_2_eq_2)



section \<open>The key decoder and the end of the stream\<close>







end
